theory Spec2Isabelle
  imports Main "HOL-Library.Word"
begin

section \<open>Values of the plugin framework\<close>

text \<open>
  A \<^verbatim>\<open>types.String\<close> is null, unknown or a known Go string; \<^verbatim>\<open>ValueString\<close>
  gives the empty string for the first two. \<^verbatim>\<open>types.Int64\<close> and \<^verbatim>\<open>types.List\<close>
  (a list of values of its element type) have the same three states.
\<close>

datatype types_String = StringNull | StringUnknown | StringValue string

fun IsNull :: "types_String \<Rightarrow> bool" where
  "IsNull StringNull = True"
| "IsNull StringUnknown = False"
| "IsNull (StringValue s) = False"

fun IsUnknown :: "types_String \<Rightarrow> bool" where
  "IsUnknown StringNull = False"
| "IsUnknown StringUnknown = True"
| "IsUnknown (StringValue s) = False"

fun ValueString :: "types_String \<Rightarrow> string" where
  "ValueString StringNull = []"
| "ValueString StringUnknown = []"
| "ValueString (StringValue s) = s"

datatype types_Int64 = Int64Null | Int64Unknown | Int64Value "64 word"

datatype 'a types_List = ListNull | ListUnknown | ListValue "'a list"

fun Elements :: "'a types_List \<Rightarrow> 'a list" where
  "Elements ListNull = []"
| "Elements ListUnknown = []"
| "Elements (ListValue xs) = xs"

text \<open>
  \<^verbatim>\<open>types.ListValueFrom(ctx, types.StringType, xs)\<close> for a Go \<^verbatim>\<open>[]string\<close>: a nil
  slice (\<open>None\<close>) gives the null list, any other slice the list of its elements as
  known strings; the conversion of a string cannot fail, so no diagnostic is returned.
\<close>

subsection \<open>Diagnostics\<close>

datatype Severity = SeverityError | SeverityWarning

datatype Diagnostic =
    ErrorDiagnostic string string
  | WarningDiagnostic string string
  | AttributeErrorDiagnostic string string string
  | AttributeWarningDiagnostic string string string

fun Severity_of :: "Diagnostic \<Rightarrow> Severity" where
  "Severity_of (ErrorDiagnostic summary detail) = SeverityError"
| "Severity_of (WarningDiagnostic summary detail) = SeverityWarning"
| "Severity_of (AttributeErrorDiagnostic p summary detail) = SeverityError"
| "Severity_of (AttributeWarningDiagnostic p summary detail) = SeverityWarning"

type_synonym Diagnostics = "Diagnostic list"

fun HasError :: "Diagnostics \<Rightarrow> bool" where
  "HasError [] = False"
| "HasError (d # ds) = (Severity_of d = SeverityError \<or> HasError ds)"

text \<open>\<^verbatim>\<open>Append\<close> adds each diagnostic that the collection does not hold yet.\<close>

fun Append :: "Diagnostics \<Rightarrow> Diagnostics \<Rightarrow> Diagnostics" where
  "Append ds [] = ds"
| "Append ds (d # rest) = Append (if d \<in> set ds then ds else ds @ [d]) rest"

definition AddError :: "Diagnostics \<Rightarrow> string \<Rightarrow> string \<Rightarrow> Diagnostics" where
  "AddError ds summary detail = Append ds [ErrorDiagnostic summary detail]"

definition AddAttributeError :: "Diagnostics \<Rightarrow> string \<Rightarrow> string \<Rightarrow> string \<Rightarrow> Diagnostics" where
  "AddAttributeError ds p summary detail = Append ds [AttributeErrorDiagnostic p summary detail]"

fun ListValueFrom :: "string list option \<Rightarrow> types_String types_List \<times> Diagnostics" where
  "ListValueFrom None = (ListNull, [])"
| "ListValueFrom (Some xs) = (ListValue (map StringValue xs), [])"

subsection \<open>Go errors and the data handed from the provider to its resources\<close>

text \<open>
  A Go \<^verbatim>\<open>error\<close> is either a value of type \<^verbatim>\<open>api.StatusError\<close>, with its HTTP
  status code, or any other error; both carry the text that \<^verbatim>\<open>Error()\<close> returns.
\<close>

datatype go_error = StatusError int string | OtherError string

fun Error :: "go_error \<Rightarrow> string" where
  "Error (StatusError code msg) = msg"
| "Error (OtherError msg) = msg"

text \<open>
  A value of type \<^verbatim>\<open>any\<close> in a configure request: nil, a \<^verbatim>\<open>*api.Client\<close>, or a
  value of another type, of which only the name (\<^verbatim>\<open>%T\<close>) matters.
\<close>

datatype 'c any_data = AnyNil | AnyClient 'c | AnyOther string

record diags_response =
  Diagnostics :: Diagnostics

section \<open>provider.go\<close>

record OllamaProviderModel =
  Host :: types_String

text \<open>
  The process environment is a map from variable names to values: \<^verbatim>\<open>os.Getenv\<close>
  gives the empty string for a variable that is not set. \<^verbatim>\<open>os.Setenv\<close> stores the
  value under the name and returns no error, unless the name is empty or holds
  \<^verbatim>\<open>=\<close> or a NUL byte, or the value holds a NUL byte: then it returns
  \<^verbatim>\<open>EINVAL\<close> and leaves the environment as it was.
\<close>

type_synonym environ = "string \<rightharpoonup> string"

definition Getenv :: "environ \<Rightarrow> string \<Rightarrow> string" where
  "Getenv env k = (case env k of None \<Rightarrow> [] | Some v \<Rightarrow> v)"

datatype errno = EINVAL

definition Setenv :: "environ \<Rightarrow> string \<Rightarrow> string \<Rightarrow> environ \<times> errno option" where
  "Setenv env k v =
     (if k = [] \<or> CHR ''='' \<in> set k \<or> CHR 0x00 \<in> set k \<or> CHR 0x00 \<in> set v
      then (env, Some EINVAL)
      else (env(k \<mapsto> v), None))"

text \<open>\<^verbatim>\<open>req.Config.Get(ctx, &config)\<close>: the decoded configuration and its diagnostics.\<close>

record provider_ConfigureRequest =
  Config_Get :: "OllamaProviderModel \<times> Diagnostics"

record 'c provider_ConfigureResponse = diags_response +
  DataSourceData :: "'c any_data"
  ResourceData :: "'c any_data"

definition unknown_host_summary :: string where
  "unknown_host_summary = ''Unknown HashiCups API Host''"

definition unknown_host_detail :: string where
  "unknown_host_detail =
     ''The provider cannot create the HashiCups API client as there is an unknown configuration value for the HashiCups API host. ''
     @ ''Either target apply the source of the value first, set the value statically in the configuration, or use the HASHICUPS_HOST environment variable.''"

definition missing_host_summary :: string where
  "missing_host_summary = ''Missing HashiCups API Host''"

definition missing_host_detail :: string where
  "missing_host_detail =
     ''The provider cannot create the HashiCups API client as there is a missing or empty value for the HashiCups API host. ''
     @ ''Set the host value in the configuration or use the HASHICUPS_HOST environment variable. ''
     @ ''If either is already set, ensure the value is not empty.''"

definition client_error_summary :: string where
  "client_error_summary = ''Error creating ollama client''"

definition client_error_detail :: string where
  "client_error_detail =
     ''The provider cannot create the ollama API client as there is a missing or empty value for the OLLAMA_HOST or ollama host. ''
     @ ''Set the host value in the configuration or use the OLLAMA_HOST environment variable. ''
     @ ''If either is already set, ensure the value is not empty or broken.''"

text \<open>Lines 72 to 76 of \<^verbatim>\<open>Configure\<close>: the environment first, then the configuration over it.\<close>

definition resolved_host :: "OllamaProviderModel \<Rightarrow> environ \<Rightarrow> string" where
  "resolved_host config env =
     (let host = Getenv env ''OLLAMA_HOST''
      in if \<not> IsNull (Host config) then ValueString (Host config) else host)"

text \<open>
  \<^verbatim>\<open>Configure\<close> of the provider. \<^verbatim>\<open>api.ClientFromEnvironment\<close> belongs to the client
  library and is a parameter: it reads the environment and returns a client or an error.
  The error that \<^verbatim>\<open>os.Setenv\<close> returns is not looked at (line 92), so only the
  environment it leaves is kept. The result is the response and the environment the
  call leaves behind.
\<close>

definition provider_Configure ::
  "(environ \<Rightarrow> go_error + 'c) \<Rightarrow> provider_ConfigureRequest \<Rightarrow> 'c provider_ConfigureResponse
     \<Rightarrow> environ \<Rightarrow> 'c provider_ConfigureResponse \<times> environ" where
  "provider_Configure ClientFromEnvironment req resp0 env =
     (let (config, getDiags) = Config_Get req;
          resp1 = resp0\<lparr>Diagnostics := Append (Diagnostics resp0) getDiags\<rparr>;
          resp2 = (if IsUnknown (Host config)
                   then resp1\<lparr>Diagnostics := AddAttributeError (Diagnostics resp1) ''host''
                                 unknown_host_summary unknown_host_detail\<rparr>
                   else resp1)
      in if HasError (Diagnostics resp2) then (resp2, env)
         else
           let host = resolved_host config env;
               resp3 = (if host = []
                        then resp2\<lparr>Diagnostics := AddAttributeError (Diagnostics resp2) ''host''
                                      missing_host_summary missing_host_detail\<rparr>
                        else resp2)
           in if HasError (Diagnostics resp3) then (resp3, env)
              else
                let env' = fst (Setenv env ''OLLAMA_HOST'' host)
                in (case ClientFromEnvironment env' of
                      Inl err \<Rightarrow>
                        (resp3\<lparr>Diagnostics := AddAttributeError (Diagnostics resp3) ''host''
                                 client_error_summary client_error_detail\<rparr>, env')
                    | Inr client \<Rightarrow>
                        (resp3\<lparr>DataSourceData := AnyClient client,
                               ResourceData := AnyClient client\<rparr>, env')))"

section \<open>domain.go\<close>

record OllamaModelResource =
  Name :: types_String
  ModifiedAt :: types_String
  Size :: types_Int64
  Digest :: types_String

record OllamaModelDetails =
  Format :: types_String
  Family :: types_String
  Families :: "types_String types_List"
  ParameterSize :: types_String
  QuantizationLevel :: types_String

text \<open>
  \<^verbatim>\<open>OllamaModel\<close> has the four fields of \<^verbatim>\<open>OllamaModelResource\<close>, under the same
  names, and \<^verbatim>\<open>Details\<close>; the record extends the other one to keep the names.
\<close>

record OllamaModel = OllamaModelResource +
  Details :: OllamaModelDetails

section \<open>The daemon's client\<close>

text \<open>
  The types of the client library, with the fields this code sets or reads.
  \<^verbatim>\<open>time.Time\<close> is a type parameter \<open>'t\<close> and its \<^verbatim>\<open>String\<close> method a parameter
  of the code that calls it; the response of \<^verbatim>\<open>Show\<close> is a type parameter \<open>'sr\<close>.
  A pointer to a bool is an option, a \<^verbatim>\<open>[]string\<close> that may be nil an optional list.
  The models of a list response are only ranged over, where a nil slice and an empty
  one behave alike, so they are a list.
\<close>

record PullRequest =
  pull_Name :: string
  pull_Stream :: "bool option"

record api_DeleteRequest =
  delete_Model :: string

record ShowRequest =
  show_Model :: string

record ProgressResponse =
  progress_Status :: string
  progress_Digest :: string
  progress_Total :: "64 word"
  progress_Completed :: "64 word"

record api_ModelDetails =
  api_ParentModel :: string
  api_Format :: string
  api_Family :: string
  api_Families :: "string list option"
  api_ParameterSize :: string
  api_QuantizationLevel :: string

record 't ListModelResponse =
  api_Name :: string
  api_Model :: string
  api_ModifiedAt :: 't
  api_Size :: "64 word"
  api_Digest :: string
  api_Details :: api_ModelDetails

record 't ListResponse =
  api_Models :: "'t ListModelResponse list"

text \<open>
  The client is the daemon seen through its four calls: each takes the daemon's state
  \<open>'d\<close> and returns its answer and the state after the call. An error is \<open>Some\<close> or
  \<open>Inl\<close>, as the Go \<^verbatim>\<open>err != nil\<close>.
\<close>

record ('d, 't, 'sr) api_Client =
  Pull :: "PullRequest \<Rightarrow> (ProgressResponse \<Rightarrow> go_error option) \<Rightarrow> 'd \<Rightarrow> go_error option \<times> 'd"
  Delete :: "api_DeleteRequest \<Rightarrow> 'd \<Rightarrow> go_error option \<times> 'd"
  Show :: "ShowRequest \<Rightarrow> 'd \<Rightarrow> (go_error + 'sr) \<times> 'd"
  List :: "'d \<Rightarrow> (go_error + 't ListResponse) \<times> 'd"

text \<open>
  The world a handler runs in: the daemon's state and the calls made to the daemon so
  far, in the order they were made.
\<close>

datatype call =
    PullCall PullRequest
  | DeleteCall api_DeleteRequest
  | ShowCall ShowRequest
  | ListCall

record 'd world =
  daemon :: 'd
  calls :: "call list"

definition client_Pull ::
  "('d, 't, 'sr) api_Client \<Rightarrow> PullRequest \<Rightarrow> (ProgressResponse \<Rightarrow> go_error option)
     \<Rightarrow> 'd world \<Rightarrow> go_error option \<times> 'd world" where
  "client_Pull c req fn w =
     (let (err, d') = Pull c req fn (daemon w)
      in (err, w\<lparr>daemon := d', calls := calls w @ [PullCall req]\<rparr>))"

definition client_Delete ::
  "('d, 't, 'sr) api_Client \<Rightarrow> api_DeleteRequest \<Rightarrow> 'd world \<Rightarrow> go_error option \<times> 'd world" where
  "client_Delete c req w =
     (let (err, d') = Delete c req (daemon w)
      in (err, w\<lparr>daemon := d', calls := calls w @ [DeleteCall req]\<rparr>))"

definition client_Show ::
  "('d, 't, 'sr) api_Client \<Rightarrow> ShowRequest \<Rightarrow> 'd world \<Rightarrow> (go_error + 'sr) \<times> 'd world" where
  "client_Show c req w =
     (let (res, d') = Show c req (daemon w)
      in (res, w\<lparr>daemon := d', calls := calls w @ [ShowCall req]\<rparr>))"

definition client_List ::
  "('d, 't, 'sr) api_Client \<Rightarrow> 'd world \<Rightarrow> (go_error + 't ListResponse) \<times> 'd world" where
  "client_List c w =
     (let (res, d') = List c (daemon w)
      in (res, w\<lparr>daemon := d', calls := calls w @ [ListCall]\<rparr>))"

text \<open>A method call through a nil \<^verbatim>\<open>*api.Client\<close> panics.\<close>

datatype panic = NilPointerDereference

subsection \<open>State of the host tool\<close>

text \<open>
  \<^verbatim>\<open>tfsdk.State\<close> holds no value (null) or an object of the schema. \<^verbatim>\<open>Set\<close> with
  a struct of framework values stores it and returns no diagnostic;
  \<^verbatim>\<open>RemoveResource\<close> makes the state null.
\<close>

datatype 'a tfsdk_State = StateNull | StateObject 'a

definition State_Set :: "'a \<Rightarrow> 'a tfsdk_State \<times> Diagnostics" where
  "State_Set v = (StateObject v, [])"

definition RemoveResource :: "'a tfsdk_State" where
  "RemoveResource = StateNull"

record 'a Response = diags_response +
  State :: "'a tfsdk_State"

record 'c ConfigureRequest =
  ProviderData :: "'c any_data"

section \<open>ollama\_model\_resource.go\<close>

definition PullResponseFn :: "ProgressResponse \<Rightarrow> go_error option" where
  "PullResponseFn rsp = None"

record 'c ollamaModelResource =
  client :: "'c option"

definition NewOllamaModelResource :: "'c ollamaModelResource" where
  "NewOllamaModelResource = \<lparr>client = None\<rparr>"

definition resource_Configure ::
  "'c ollamaModelResource \<Rightarrow> 'c ConfigureRequest \<Rightarrow> diags_response
     \<Rightarrow> 'c ollamaModelResource \<times> diags_response" where
  "resource_Configure r req resp =
     (case ProviderData req of
        AnyNil \<Rightarrow> (r, resp)
      | AnyOther t \<Rightarrow>
          (r, resp\<lparr>Diagnostics := AddError (Diagnostics resp)
                      ''Unexpected Data Source Configure Type''
                      (''Expected *api.Client, got: '' @ t
                       @ ''. Please report this issue to the provider developers.'')\<rparr>)
      | AnyClient c \<Rightarrow> (r\<lparr>client := Some c\<rparr>, resp))"

text \<open>
  The requests carry what \<^verbatim>\<open>req.Plan.Get\<close> and \<^verbatim>\<open>req.State.Get\<close> decode: the
  struct and the diagnostics of the decoding.
\<close>

record CreateRequest =
  create_Plan :: "OllamaModelResource \<times> Diagnostics"

record ReadRequest =
  read_State :: "OllamaModelResource \<times> Diagnostics"

record UpdateRequest =
  update_State :: "OllamaModelResource \<times> Diagnostics"
  update_Plan :: "OllamaModelResource \<times> Diagnostics"

record DeleteRequest =
  delete_State :: "OllamaModelResource \<times> Diagnostics"

definition resource_Create ::
  "(('d, 't, 'sr) api_Client) ollamaModelResource \<Rightarrow> CreateRequest
     \<Rightarrow> OllamaModelResource Response \<Rightarrow> 'd world
     \<Rightarrow> panic + OllamaModelResource Response \<times> 'd world" where
  "resource_Create r req resp0 w =
     (let (plan, diags) = create_Plan req;
          resp1 = resp0\<lparr>Diagnostics := Append (Diagnostics resp0) diags\<rparr>
      in if HasError (Diagnostics resp1) then Inr (resp1, w)
         else
           let noStream = False;
               ollamaReq = \<lparr>pull_Name = ValueString (Name plan), pull_Stream = Some noStream\<rparr>
           in (case client r of
                 None \<Rightarrow> Inl NilPointerDereference
               | Some c \<Rightarrow>
                   (case client_Pull c ollamaReq PullResponseFn w of
                      (Some err, w1) \<Rightarrow>
                        Inr (resp1\<lparr>Diagnostics := AddError (Diagnostics resp1)
                                     ''Error pulling model''
                                     (''Could not pull model, unexpected error: '' @ Error err)\<rparr>, w1)
                    | (None, w1) \<Rightarrow>
                        (let (st, diags') = State_Set plan
                         in Inr (resp1\<lparr>Diagnostics := Append (Diagnostics resp1) diags',
                                       State := st\<rparr>, w1)))))"

definition resource_Read ::
  "(('d, 't, 'sr) api_Client) ollamaModelResource \<Rightarrow> ReadRequest
     \<Rightarrow> OllamaModelResource Response \<Rightarrow> 'd world
     \<Rightarrow> panic + OllamaModelResource Response \<times> 'd world" where
  "resource_Read r req resp0 w =
     (let (state, diags) = read_State req;
          resp1 = resp0\<lparr>Diagnostics := Append (Diagnostics resp0) diags\<rparr>
      in if HasError (Diagnostics resp1) then Inr (resp1, w)
         else
           (case client r of
              None \<Rightarrow> Inl NilPointerDereference
            | Some c \<Rightarrow>
                (case client_Show c \<lparr>show_Model = ValueString (Name state)\<rparr> w of
                   (Inl err, w1) \<Rightarrow>
                     (case err of
                        StatusError code msg \<Rightarrow>
                          if code = 404 then Inr (resp1\<lparr>State := RemoveResource\<rparr>, w1)
                          else Inr (resp1\<lparr>Diagnostics := AddError (Diagnostics resp1)
                                            ''Error Reading Ollama Model''
                                            (''Could not read ollama model '' @ ValueString (Name state)
                                             @ '': '' @ Error err)\<rparr>, w1)
                      | OtherError msg \<Rightarrow>
                          Inr (resp1\<lparr>Diagnostics := AddError (Diagnostics resp1)
                                       ''Error Reading Ollama Model''
                                       (''Could not read ollama model '' @ ValueString (Name state)
                                        @ '': '' @ Error err)\<rparr>, w1))
                 | (Inr ollamaModel, w1) \<Rightarrow>
                     (let (st, diags') = State_Set state
                      in Inr (resp1\<lparr>Diagnostics := Append (Diagnostics resp1) diags',
                                    State := st\<rparr>, w1)))))"

definition resource_Update ::
  "(('d, 't, 'sr) api_Client) ollamaModelResource \<Rightarrow> UpdateRequest
     \<Rightarrow> OllamaModelResource Response \<Rightarrow> 'd world
     \<Rightarrow> panic + OllamaModelResource Response \<times> 'd world" where
  "resource_Update r req resp0 w =
     (let (state, diags) = update_State req;
          resp1 = resp0\<lparr>Diagnostics := Append (Diagnostics resp0) diags\<rparr>
      in if HasError (Diagnostics resp1) then Inr (resp1, w)
         else
           let (plan, diags2) = update_Plan req;
               resp2 = resp1\<lparr>Diagnostics := Append (Diagnostics resp1) diags2\<rparr>
           in if HasError (Diagnostics resp2) then Inr (resp2, w)
              else
                (case client r of
                   None \<Rightarrow> Inl NilPointerDereference
                 | Some c \<Rightarrow>
                     (case client_Delete c \<lparr>delete_Model = ValueString (Name state)\<rparr> w of
                        (Some err, w1) \<Rightarrow>
                          Inr (resp2\<lparr>Diagnostics := AddError (Diagnostics resp2)
                                       ''Error deleting Ollama Model''
                                       (''Could not delete ollama model '' @ ValueString (Name state)
                                        @ '': '' @ Error err)\<rparr>, w1)
                      | (None, w1) \<Rightarrow>
                          (let noStream = False;
                               ollamaReq = \<lparr>pull_Name = ValueString (Name plan),
                                            pull_Stream = Some noStream\<rparr>
                           in (case client_Pull c ollamaReq PullResponseFn w1 of
                                 (Some err, w2) \<Rightarrow>
                                   Inr (resp2\<lparr>Diagnostics := AddError (Diagnostics resp2)
                                                ''Error pulling model''
                                                (''Could not pull model, unexpected error: ''
                                                 @ Error err)\<rparr>, w2)
                               | (None, w2) \<Rightarrow>
                                   (let (st, diags') = State_Set plan
                                    in Inr (resp2\<lparr>Diagnostics := Append (Diagnostics resp2) diags',
                                                  State := st\<rparr>, w2)))))))"

definition resource_Delete ::
  "(('d, 't, 'sr) api_Client) ollamaModelResource \<Rightarrow> DeleteRequest
     \<Rightarrow> OllamaModelResource Response \<Rightarrow> 'd world
     \<Rightarrow> panic + OllamaModelResource Response \<times> 'd world" where
  "resource_Delete r req resp0 w =
     (let (state, diags) = delete_State req;
          resp1 = resp0\<lparr>Diagnostics := Append (Diagnostics resp0) diags\<rparr>
      in if HasError (Diagnostics resp1) then Inr (resp1, w)
         else
           (case client r of
              None \<Rightarrow> Inl NilPointerDereference
            | Some c \<Rightarrow>
                (case client_Delete c \<lparr>delete_Model = ValueString (Name state)\<rparr> w of
                   (Some err, w1) \<Rightarrow>
                     Inr (resp1\<lparr>Diagnostics := AddError (Diagnostics resp1)
                                  ''Error deleting Ollama Model''
                                  (''Could not delete ollama model '' @ ValueString (Name state)
                                   @ '': '' @ Error err)\<rparr>, w1)
                 | (None, w1) \<Rightarrow> Inr (resp1, w1))))"

section \<open>ollama\_model\_data\_source.go\<close>

record 'c OllamaModelDataSource =
  ds_client :: "'c option"

text \<open>
  \<^verbatim>\<open>Models\<close> is a Go slice: nil (\<open>None\<close>) or a sequence of entries, which may be
  empty. \<^verbatim>\<open>append\<close> to a nil slice gives the slice of the one element.
\<close>

record OllamaModelDataSourceModel =
  Models :: "OllamaModel list option"

definition go_append :: "'a list option \<Rightarrow> 'a \<Rightarrow> 'a list option" where
  "go_append s x = (case s of None \<Rightarrow> Some [x] | Some xs \<Rightarrow> Some (xs @ [x]))"

text \<open>
  The state of the data source has the one attribute \<^verbatim>\<open>models\<close>, a list.
  \<^verbatim>\<open>State.Set\<close> with the struct encodes the slice: a nil slice as the null list, any
  other slice, the empty one too, as the list of its entries. It returns no diagnostic.
\<close>

record OllamaModelDataSourceState =
  models :: "OllamaModel types_List"

fun FromSlice :: "'a list option \<Rightarrow> 'a types_List" where
  "FromSlice None = ListNull"
| "FromSlice (Some xs) = ListValue xs"

definition datasource_State_Set ::
  "OllamaModelDataSourceModel \<Rightarrow> OllamaModelDataSourceState tfsdk_State \<times> Diagnostics" where
  "datasource_State_Set data = (StateObject \<lparr>models = FromSlice (Models data)\<rparr>, [])"

definition NewOllamaModelDataSource :: "'c OllamaModelDataSource" where
  "NewOllamaModelDataSource = \<lparr>ds_client = None\<rparr>"

definition datasource_Configure ::
  "'c OllamaModelDataSource \<Rightarrow> 'c ConfigureRequest \<Rightarrow> diags_response
     \<Rightarrow> 'c OllamaModelDataSource \<times> diags_response" where
  "datasource_Configure d req resp =
     (case ProviderData req of
        AnyNil \<Rightarrow> (d, resp)
      | AnyOther t \<Rightarrow>
          (d, resp\<lparr>Diagnostics := AddError (Diagnostics resp)
                      ''Unexpected Data Source Configure Type''
                      (''Expected *http.Client, got: '' @ t
                       @ ''. Please report this issue to the provider developers.'')\<rparr>)
      | AnyClient c \<Rightarrow> (d\<lparr>ds_client := Some c\<rparr>, resp))"

record datasource_ReadRequest =
  read_Config :: "OllamaModelDataSourceModel \<times> Diagnostics"

text \<open>
  The loop over \<^verbatim>\<open>rsp.Models\<close>: each model appends the diagnostics of its families
  list to the response and one entry to \<^verbatim>\<open>data.Models\<close>.
\<close>

fun Read_range ::
  "('t \<Rightarrow> string) \<Rightarrow> 't ListModelResponse list \<Rightarrow> OllamaModelDataSourceModel \<Rightarrow> Diagnostics
     \<Rightarrow> OllamaModelDataSourceModel \<times> Diagnostics" where
  "Read_range time_String [] data ds = (data, ds)"
| "Read_range time_String (m # ms) data ds =
     (let (families, familiesDiags) = ListValueFrom (api_Families (api_Details m));
          ds' = Append ds familiesDiags;
          data' = data\<lparr>Models := go_append (Models data)
                    \<lparr>Name = StringValue (api_Name m),
                      ModifiedAt = StringValue (time_String (api_ModifiedAt m)),
                      Size = Int64Value (api_Size m),
                      Digest = StringValue (api_Digest m),
                      Details = \<lparr>Format = StringValue (api_Format (api_Details m)),
                                 Family = StringValue (api_Family (api_Details m)),
                                 Families = families,
                                 ParameterSize = StringValue (api_ParameterSize (api_Details m)),
                                 QuantizationLevel =
                                   StringValue (api_QuantizationLevel (api_Details m))\<rparr>\<rparr>\<rparr>
      in Read_range time_String ms data' ds')"

definition datasource_Read ::
  "('t \<Rightarrow> string) \<Rightarrow> (('d, 't, 'sr) api_Client) OllamaModelDataSource \<Rightarrow> datasource_ReadRequest
     \<Rightarrow> OllamaModelDataSourceState Response \<Rightarrow> 'd world
     \<Rightarrow> panic + OllamaModelDataSourceState Response \<times> 'd world" where
  "datasource_Read time_String d req resp0 w =
     (let (data, diags) = read_Config req;
          resp1 = resp0\<lparr>Diagnostics := Append (Diagnostics resp0) diags\<rparr>
      in if HasError (Diagnostics resp1) then Inr (resp1, w)
         else
           (case ds_client d of
              None \<Rightarrow> Inl NilPointerDereference
            | Some c \<Rightarrow>
                (case client_List c w of
                   (Inl err, w1) \<Rightarrow>
                     Inr (resp1\<lparr>Diagnostics := AddError (Diagnostics resp1) ''Client Error''
                                  (''Unable to read ollama models, got error: '' @ Error err)\<rparr>, w1)
                 | (Inr rsp, w1) \<Rightarrow>
                     (let (data', ds') = Read_range time_String (api_Models rsp) data
                                           (Diagnostics resp1);
                          (st, diags') = datasource_State_Set data'
                      in Inr (resp1\<lparr>Diagnostics := Append ds' diags', State := st\<rparr>, w1)))))"

text \<open>
  The entry that the body of the loop builds from one model of the daemon (the
  composite literal of lines 139 to 151), as a function of that model, to state what
  the loop computes.
\<close>

definition projected_entry :: "('t \<Rightarrow> string) \<Rightarrow> 't ListModelResponse \<Rightarrow> OllamaModel" where
  "projected_entry time_String m =
     \<lparr>Name = StringValue (api_Name m),
      ModifiedAt = StringValue (time_String (api_ModifiedAt m)),
      Size = Int64Value (api_Size m),
      Digest = StringValue (api_Digest m),
      Details = \<lparr>Format = StringValue (api_Format (api_Details m)),
                 Family = StringValue (api_Family (api_Details m)),
                 Families = fst (ListValueFrom (api_Families (api_Details m))),
                 ParameterSize = StringValue (api_ParameterSize (api_Details m)),
                 QuantizationLevel = StringValue (api_QuantizationLevel (api_Details m))\<rparr>\<rparr>"

section \<open>A daemon for concrete runs\<close>

text \<open>
  A small daemon to run the handlers on: it is up or down and holds the names of its
  models. When it is down every call fails with a connection error; \<^verbatim>\<open>Pull\<close> rejects
  the empty name; \<^verbatim>\<open>Delete\<close> and \<^verbatim>\<open>Show\<close> answer 404 for a name it does not hold.
\<close>

record registry =
  up :: bool
  names :: "string list"

definition registry_entry :: "string \<Rightarrow> nat ListModelResponse" where
  "registry_entry n =
     \<lparr>api_Name = n, api_Model = n, api_ModifiedAt = 0, api_Size = 42, api_Digest = ''sha256'',
      api_Details = \<lparr>api_ParentModel = [], api_Format = ''gguf'', api_Family = ''llama'',
                     api_Families = Some [''a'', ''b''], api_ParameterSize = ''7B'',
                     api_QuantizationLevel = ''Q4_0''\<rparr>\<rparr>"

definition registry_client :: "(registry, nat, unit) api_Client" where
  "registry_client =
     \<lparr>Pull = (\<lambda>req fn d.
         if \<not> up d then (Some (OtherError ''connection refused''), d)
         else if pull_Name req = [] then (Some (StatusError 400 ''invalid model name''), d)
         else (None, d\<lparr>names := names d @ [pull_Name req]\<rparr>)),
      Delete = (\<lambda>req d.
         if \<not> up d then (Some (OtherError ''connection refused''), d)
         else if delete_Model req \<in> set (names d)
              then (None, d\<lparr>names := removeAll (delete_Model req) (names d)\<rparr>)
              else (Some (StatusError 404 ''model not found''), d)),
      Show = (\<lambda>req d.
         if \<not> up d then (Inl (OtherError ''connection refused''), d)
         else if show_Model req \<in> set (names d) then (Inr (), d)
              else (Inl (StatusError 404 ''model not found''), d)),
      List = (\<lambda>d.
         if \<not> up d then (Inl (OtherError ''connection refused''), d)
         else (Inr \<lparr>api_Models = map registry_entry (names d)\<rparr>, d))\<rparr>"

definition time_String_nat :: "nat \<Rightarrow> string" where
  "time_String_nat t = (if t = 0 then ''0001-01-01 00:00:00 +0000 UTC'' else ''later'')"

definition model_named :: "string \<Rightarrow> OllamaModelResource" where
  "model_named n = \<lparr>Name = StringValue n, ModifiedAt = StringNull, Size = Int64Null, Digest = StringNull\<rparr>"

definition registry_world :: "bool \<Rightarrow> string list \<Rightarrow> registry world" where
  "registry_world u ns = \<lparr>daemon = \<lparr>up = u, names = ns\<rparr>, calls = []\<rparr>"

definition response_with :: "'a tfsdk_State \<Rightarrow> 'a Response" where
  "response_with st = \<lparr>Diagnostics = [], State = st\<rparr>"

section \<open>Facts about diagnostics\<close>

lemma set_Append: "set (Append ds new) = set ds \<union> set new"
  by (induction new arbitrary: ds) auto

lemma HasError_set: "HasError ds = (\<exists>d \<in> set ds. Severity_of d = SeverityError)"
  by (induction ds) auto

lemma HasError_Append: "HasError (Append ds new) = (HasError ds \<or> HasError new)"
  by (auto simp: HasError_set set_Append)

lemma Append_Nil: "Append ds [] = ds"
  by simp

lemma HasError_AddError: "HasError (AddError ds s d)"
  unfolding AddError_def HasError_Append by simp

lemma HasError_AddAttributeError: "HasError (AddAttributeError ds p s d)"
  unfolding AddAttributeError_def HasError_Append by simp

lemma not_HasError_notin:
  "\<not> HasError ds \<Longrightarrow> Severity_of d = SeverityError \<Longrightarrow> d \<notin> set ds"
  by (auto simp: HasError_set)

section \<open>Provider configuration\<close>

lemma missing_not_client:
  "AttributeErrorDiagnostic ''host'' missing_host_summary missing_host_detail
     \<noteq> AttributeErrorDiagnostic ''host'' client_error_summary client_error_detail"
  by (simp add: missing_host_summary_def client_error_summary_def)

lemma Setenv_OLLAMA_HOST:
  "Setenv env ''OLLAMA_HOST'' v
     = (if CHR 0x00 \<in> set v then (env, Some EINVAL) else (env(''OLLAMA_HOST'' \<mapsto> v), None))"
  by (simp add: Setenv_def)

text \<open>
  What \<^verbatim>\<open>Configure\<close> does once a host is resolved: it asks \<^verbatim>\<open>os.Setenv\<close> to store
  the host and builds the client from the environment that call leaves.
\<close>

lemma Configure_resolved:
  assumes "Config_Get req = (config, getDiags)"
    and "\<not> HasError (Diagnostics resp)" and "\<not> HasError getDiags"
    and "\<not> IsUnknown (Host config)"
    and "resolved_host config env \<noteq> []"
  shows "provider_Configure cfe req resp env =
     (case cfe (fst (Setenv env ''OLLAMA_HOST'' (resolved_host config env))) of
        Inl err \<Rightarrow>
          (resp\<lparr>Diagnostics := AddAttributeError (Append (Diagnostics resp) getDiags) ''host''
                   client_error_summary client_error_detail\<rparr>,
           fst (Setenv env ''OLLAMA_HOST'' (resolved_host config env)))
      | Inr c \<Rightarrow>
          (resp\<lparr>Diagnostics := Append (Diagnostics resp) getDiags,
                 DataSourceData := AnyClient c, ResourceData := AnyClient c\<rparr>,
           fst (Setenv env ''OLLAMA_HOST'' (resolved_host config env))))"
proof -
  have ne: "\<not> HasError (Append (Diagnostics resp) getDiags)"
    using assms(2,3) by (simp add: HasError_Append)
  show ?thesis
    using assms(1,4,5) ne
    by (simp add: provider_Configure_def Let_def split: sum.splits)
qed

text \<open>
  C1. When the configuration decodes without error, a configured host \<open>h\<close> that is not
  empty is the resolved host whatever \<^verbatim>\<open>OLLAMA_HOST\<close> holds, and with a null host a
  non-empty \<^verbatim>\<open>OLLAMA_HOST\<close> is the resolved host. \<^verbatim>\<open>Configure\<close> then reports no
  missing host and leaves the environment that \<^verbatim>\<open>os.Setenv\<close> leaves when asked to
  store \<open>h\<close>; when \<open>h\<close> holds no NUL byte, that is the old environment with \<open>h\<close> in
  \<^verbatim>\<open>OLLAMA_HOST\<close>, and the client is built from it.
\<close>

theorem host_resolution:
  assumes "Config_Get req = (config, getDiags)"
    and "\<not> HasError (Diagnostics resp)" and "\<not> HasError getDiags"
    and "h \<noteq> []"
    and "Host config = StringValue h \<or> (Host config = StringNull \<and> env ''OLLAMA_HOST'' = Some h)"
  shows "resolved_host config env = h
       \<and> snd (provider_Configure cfe req resp env) = fst (Setenv env ''OLLAMA_HOST'' h)
       \<and> AttributeErrorDiagnostic ''host'' missing_host_summary missing_host_detail
           \<notin> set (Diagnostics (fst (provider_Configure cfe req resp env)))
       \<and> (CHR 0x00 \<notin> set h \<longrightarrow>
            snd (provider_Configure cfe req resp env) = env(''OLLAMA_HOST'' \<mapsto> h)
            \<and> (case cfe (env(''OLLAMA_HOST'' \<mapsto> h)) of
                 Inl err \<Rightarrow> HasError (Diagnostics (fst (provider_Configure cfe req resp env)))
               | Inr c \<Rightarrow>
                   ResourceData (fst (provider_Configure cfe req resp env)) = AnyClient c
                   \<and> DataSourceData (fst (provider_Configure cfe req resp env)) = AnyClient c))"
proof -
  let ?res = "provider_Configure cfe req resp env"
  let ?m = "AttributeErrorDiagnostic ''host'' missing_host_summary missing_host_detail"
  have rh: "resolved_host config env = h"
    using assms(5) by (auto simp: resolved_host_def Getenv_def)
  have unk: "\<not> IsUnknown (Host config)"
    using assms(5) by auto
  have ne: "\<not> HasError (Append (Diagnostics resp) getDiags)"
    using assms(2,3) by (simp add: HasError_Append)
  have notin: "?m \<notin> set (Append (Diagnostics resp) getDiags)"
    using ne by (rule not_HasError_notin) simp
  note run = Configure_resolved [OF assms(1,2,3) unk, of env cfe, unfolded rh, OF assms(4)]
  have env': "snd ?res = fst (Setenv env ''OLLAMA_HOST'' h)"
    unfolding run by (simp split: sum.splits)
  have nomiss: "?m \<notin> set (Diagnostics (fst ?res))"
    unfolding run using notin missing_not_client
    by (simp add: AddAttributeError_def set_Append split: sum.splits)
  have nonul: "CHR 0x00 \<notin> set h \<longrightarrow>
            snd ?res = env(''OLLAMA_HOST'' \<mapsto> h)
            \<and> (case cfe (env(''OLLAMA_HOST'' \<mapsto> h)) of
                 Inl err \<Rightarrow> HasError (Diagnostics (fst ?res))
               | Inr c \<Rightarrow> ResourceData (fst ?res) = AnyClient c
                   \<and> DataSourceData (fst ?res) = AnyClient c)"
    unfolding run
    by (simp add: Setenv_OLLAMA_HOST HasError_AddAttributeError split: sum.splits)
  show ?thesis
    using rh env' nomiss nonul by blast
qed

theorem host_resolution_witness:
  "resolved_host \<lparr>Host = StringValue ''http://gpu:11434''\<rparr>
       [''OLLAMA_HOST'' \<mapsto> ''http://other:1''] = ''http://gpu:11434''
   \<and> CHR 0x00 \<notin> set ''http://gpu:11434''
   \<and> ResourceData (fst (provider_Configure Inr
         \<lparr>Config_Get = (\<lparr>Host = StringValue ''http://gpu:11434''\<rparr>, [])\<rparr>
         \<lparr>Diagnostics = [], DataSourceData = AnyNil, ResourceData = AnyNil\<rparr>
         [''OLLAMA_HOST'' \<mapsto> ''http://other:1'']))
       = AnyClient [''OLLAMA_HOST'' \<mapsto> ''http://gpu:11434'']
   \<and> resolved_host \<lparr>Host = StringNull\<rparr>
       [''OLLAMA_HOST'' \<mapsto> ''http://other:1''] = ''http://other:1''
   \<and> ResourceData (fst (provider_Configure Inr
         \<lparr>Config_Get = (\<lparr>Host = StringNull\<rparr>, [])\<rparr>
         \<lparr>Diagnostics = [], DataSourceData = AnyNil, ResourceData = AnyNil\<rparr>
         [''OLLAMA_HOST'' \<mapsto> ''http://other:1'']))
       = AnyClient [''OLLAMA_HOST'' \<mapsto> ''http://other:1'']"
proof -
  note a = host_resolution [where req = "\<lparr>Config_Get = (\<lparr>Host = StringValue ''http://gpu:11434''\<rparr>, [])\<rparr>"
      and config = "\<lparr>Host = StringValue ''http://gpu:11434''\<rparr>" and getDiags = "[]"
      and resp = "\<lparr>Diagnostics = [], DataSourceData = AnyNil, ResourceData = AnyNil\<rparr>"
      and h = "''http://gpu:11434''" and env = "[''OLLAMA_HOST'' \<mapsto> ''http://other:1'']"
      and cfe = Inr]
  note b = host_resolution [where req = "\<lparr>Config_Get = (\<lparr>Host = StringNull\<rparr>, [])\<rparr>"
      and config = "\<lparr>Host = StringNull\<rparr>" and getDiags = "[]"
      and resp = "\<lparr>Diagnostics = [], DataSourceData = AnyNil, ResourceData = AnyNil\<rparr>"
      and h = "''http://other:1''" and env = "[''OLLAMA_HOST'' \<mapsto> ''http://other:1'']"
      and cfe = Inr]
  show ?thesis
    using a b by simp
qed

text \<open>
  C2, as stated, fails: a configured host that is set to the empty string is kept, so
  \<^verbatim>\<open>Configure\<close> reports the missing host although \<^verbatim>\<open>OLLAMA_HOST\<close> holds a
  non-empty string.
\<close>

theorem missing_host_counterexample:
  "Getenv [''OLLAMA_HOST'' \<mapsto> ''http://localhost:11434''] ''OLLAMA_HOST'' \<noteq> []
   \<and> AttributeErrorDiagnostic ''host'' missing_host_summary missing_host_detail
       \<in> set (Diagnostics (fst (provider_Configure Inr
             \<lparr>Config_Get = (\<lparr>Host = StringValue []\<rparr>, [])\<rparr>
             \<lparr>Diagnostics = [], DataSourceData = AnyNil, ResourceData = AnyNil\<rparr>
             [''OLLAMA_HOST'' \<mapsto> ''http://localhost:11434''])))"
  by (simp add: provider_Configure_def Let_def resolved_host_def Getenv_def
      AddAttributeError_def)

text \<open>
  C2, amended. When the configuration decodes without error and the host is known,
  \<^verbatim>\<open>Configure\<close> reports the missing host exactly when the host in effect is empty:
  the configured value when the host is not null, even if that value is empty, and
  \<^verbatim>\<open>OLLAMA_HOST\<close> only when the configured host is null.
\<close>

theorem missing_host_iff:
  assumes "Config_Get req = (config, getDiags)"
    and "\<not> HasError (Diagnostics resp)" and "\<not> HasError getDiags"
    and "\<not> IsUnknown (Host config)"
  shows "(AttributeErrorDiagnostic ''host'' missing_host_summary missing_host_detail
            \<in> set (Diagnostics (fst (provider_Configure cfe req resp env))))
         = (if IsNull (Host config) then Getenv env ''OLLAMA_HOST'' = []
            else ValueString (Host config) = [])"
proof -
  let ?ds = "Append (Diagnostics resp) getDiags"
  let ?m = "AttributeErrorDiagnostic ''host'' missing_host_summary missing_host_detail"
  have ne: "\<not> HasError ?ds"
    using assms(2,3) by (simp add: HasError_Append)
  have notin: "?m \<notin> set ?ds"
    using ne by (rule not_HasError_notin) simp
  have rh: "(resolved_host config env = []) =
        (if IsNull (Host config) then Getenv env ''OLLAMA_HOST'' = []
         else ValueString (Host config) = [])"
    by (simp add: resolved_host_def)
  show ?thesis
  proof (cases "resolved_host config env = []")
    case True
    then show ?thesis
      using assms(1,4) ne rh
      by (simp add: provider_Configure_def Let_def HasError_AddAttributeError)
         (simp add: AddAttributeError_def set_Append)
  next
    case False
    then show ?thesis
      using assms(1,4) ne rh notin missing_not_client
      by (auto simp: provider_Configure_def Let_def AddAttributeError_def set_Append
          simp del: Append.simps split: sum.splits)
  qed
qed

theorem missing_host_iff_witness:
  "AttributeErrorDiagnostic ''host'' missing_host_summary missing_host_detail
       \<in> set (Diagnostics (fst (provider_Configure Inr
             \<lparr>Config_Get = (\<lparr>Host = StringNull\<rparr>, [])\<rparr>
             \<lparr>Diagnostics = [], DataSourceData = AnyNil, ResourceData = AnyNil\<rparr>
             Map.empty)))
   \<and> AttributeErrorDiagnostic ''host'' missing_host_summary missing_host_detail
       \<notin> set (Diagnostics (fst (provider_Configure Inr
             \<lparr>Config_Get = (\<lparr>Host = StringValue ''http://gpu:11434''\<rparr>, [])\<rparr>
             \<lparr>Diagnostics = [], DataSourceData = AnyNil, ResourceData = AnyNil\<rparr>
             Map.empty)))"
proof -
  note a = missing_host_iff [where req = "\<lparr>Config_Get = (\<lparr>Host = StringNull\<rparr>, [])\<rparr>"
      and config = "\<lparr>Host = StringNull\<rparr>" and getDiags = "[]"
      and resp = "\<lparr>Diagnostics = [], DataSourceData = AnyNil, ResourceData = AnyNil\<rparr>"
      and env = Map.empty and cfe = Inr]
  note b = missing_host_iff [where req = "\<lparr>Config_Get = (\<lparr>Host = StringValue ''http://gpu:11434''\<rparr>, [])\<rparr>"
      and config = "\<lparr>Host = StringValue ''http://gpu:11434''\<rparr>" and getDiags = "[]"
      and resp = "\<lparr>Diagnostics = [], DataSourceData = AnyNil, ResourceData = AnyNil\<rparr>"
      and env = Map.empty and cfe = Inr]
  have "Getenv Map.empty ''OLLAMA_HOST'' = []"
    by (simp add: Getenv_def)
  then show ?thesis
    using a b by simp
qed

text \<open>
  C9 fails on the code where \<^verbatim>\<open>os.Setenv\<close> fails. For the configured host
  \<^verbatim>\<open>a\<close>, NUL, \<^verbatim>\<open>b\<close> the resolved host is that string and is not empty,
  \<^verbatim>\<open>os.Setenv\<close> returns \<^verbatim>\<open>EINVAL\<close>, and \<^verbatim>\<open>Configure\<close>, which does not look at
  that error, leaves \<^verbatim>\<open>OLLAMA_HOST\<close> as it was, builds the client from that
  environment and adds no diagnostic.
\<close>

theorem setenv_error_dropped:
  "resolved_host \<lparr>Host = StringValue [CHR ''a'', CHR 0x00, CHR ''b'']\<rparr>
       [''OLLAMA_HOST'' \<mapsto> ''http://other:1''] = [CHR ''a'', CHR 0x00, CHR ''b'']
   \<and> snd (Setenv [''OLLAMA_HOST'' \<mapsto> ''http://other:1''] ''OLLAMA_HOST''
            [CHR ''a'', CHR 0x00, CHR ''b'']) = Some EINVAL
   \<and> provider_Configure Inr
         \<lparr>Config_Get = (\<lparr>Host = StringValue [CHR ''a'', CHR 0x00, CHR ''b'']\<rparr>, [])\<rparr>
         \<lparr>Diagnostics = [], DataSourceData = AnyNil, ResourceData = AnyNil\<rparr>
         [''OLLAMA_HOST'' \<mapsto> ''http://other:1'']
     = (\<lparr>Diagnostics = [],
         DataSourceData = AnyClient [''OLLAMA_HOST'' \<mapsto> ''http://other:1''],
         ResourceData = AnyClient [''OLLAMA_HOST'' \<mapsto> ''http://other:1'']\<rparr>,
        [''OLLAMA_HOST'' \<mapsto> ''http://other:1''])"
  by (simp add: provider_Configure_def Let_def resolved_host_def Setenv_def)

section \<open>The model resource\<close>

text \<open>
  C10. With nil provider data, \<^verbatim>\<open>Configure\<close> of the resource and of the data source
  return the receiver and the response as they were, so a new receiver keeps its nil
  client. The diagnostics change only when the provider data is a value of another
  type than the client, and in that case they hold an error and the client is not set.
\<close>

theorem configure_nil_provider_data:
  "(ProviderData req = AnyNil \<longrightarrow>
      resource_Configure r req resp = (r, resp)
      \<and> datasource_Configure d req resp = (d, resp)
      \<and> client (fst (resource_Configure NewOllamaModelResource req resp)) = None
      \<and> ds_client (fst (datasource_Configure NewOllamaModelDataSource req resp)) = None)
   \<and> (Diagnostics (snd (resource_Configure r req resp)) \<noteq> Diagnostics resp \<longrightarrow>
        (\<exists>t. ProviderData req = AnyOther t))
   \<and> (Diagnostics (snd (datasource_Configure d req resp)) \<noteq> Diagnostics resp \<longrightarrow>
        (\<exists>t. ProviderData req = AnyOther t))
   \<and> (\<forall>t. ProviderData req = AnyOther t \<longrightarrow>
        HasError (Diagnostics (snd (resource_Configure r req resp)))
        \<and> HasError (Diagnostics (snd (datasource_Configure d req resp)))
        \<and> fst (resource_Configure r req resp) = r
        \<and> fst (datasource_Configure d req resp) = d)"
  by (cases "ProviderData req")
     (simp_all add: resource_Configure_def datasource_Configure_def HasError_AddError
        NewOllamaModelResource_def NewOllamaModelDataSource_def)

theorem configure_nil_provider_data_witness:
  "resource_Configure (NewOllamaModelResource :: nat ollamaModelResource)
       \<lparr>ProviderData = AnyNil\<rparr> \<lparr>Diagnostics = []\<rparr>
     = (\<lparr>client = None\<rparr>, \<lparr>Diagnostics = []\<rparr>)
   \<and> datasource_Configure (NewOllamaModelDataSource :: nat OllamaModelDataSource)
       \<lparr>ProviderData = AnyNil\<rparr> \<lparr>Diagnostics = []\<rparr>
     = (\<lparr>ds_client = None\<rparr>, \<lparr>Diagnostics = []\<rparr>)
   \<and> HasError (Diagnostics (snd (resource_Configure (NewOllamaModelResource :: nat ollamaModelResource)
       \<lparr>ProviderData = AnyOther ''string''\<rparr> \<lparr>Diagnostics = []\<rparr>)))"
proof -
  note a = configure_nil_provider_data [where req = "\<lparr>ProviderData = AnyNil\<rparr>"
      and r = "NewOllamaModelResource :: nat ollamaModelResource"
      and d = "NewOllamaModelDataSource :: nat OllamaModelDataSource"
      and resp = "\<lparr>Diagnostics = []\<rparr>"]
  note b = configure_nil_provider_data [where req = "\<lparr>ProviderData = AnyOther ''string''\<rparr>"
      and r = "NewOllamaModelResource :: nat ollamaModelResource"
      and d = "NewOllamaModelDataSource :: nat OllamaModelDataSource"
      and resp = "\<lparr>Diagnostics = []\<rparr>"]
  show ?thesis
    using a b by (simp add: NewOllamaModelResource_def NewOllamaModelDataSource_def)
qed

text \<open>
  C4. When the plan decodes without error, \<^verbatim>\<open>Create\<close> makes one call to the daemon,
  a pull of the planned name with streaming off. If the pull fails, the response holds
  the error diagnostic with the daemon's message and its state is the one it came with;
  if the pull succeeds, the state is the plan as decoded.
\<close>

theorem create_pull_then_state:
  assumes "client r = Some c" and "create_Plan req = (plan, diags)"
    and "\<not> HasError (Diagnostics resp)" and "\<not> HasError diags"
  shows "\<exists>resp' w'. resource_Create r req resp w = Inr (resp', w')
     \<and> calls w' = calls w @ [PullCall \<lparr>pull_Name = ValueString (Name plan), pull_Stream = Some False\<rparr>]
     \<and> (case Pull c \<lparr>pull_Name = ValueString (Name plan), pull_Stream = Some False\<rparr>
               PullResponseFn (daemon w) of
          (Some err, d') \<Rightarrow>
            ErrorDiagnostic ''Error pulling model''
                (''Could not pull model, unexpected error: '' @ Error err)
              \<in> set (Diagnostics resp')
            \<and> HasError (Diagnostics resp') \<and> State resp' = State resp \<and> daemon w' = d'
        | (None, d') \<Rightarrow>
            State resp' = StateObject plan
            \<and> Diagnostics resp' = Append (Diagnostics resp) diags \<and> daemon w' = d')"
proof -
  have ne: "\<not> HasError (Append (Diagnostics resp) diags)"
    using assms(3,4) by (simp add: HasError_Append)
  obtain err d' where p: "Pull c \<lparr>pull_Name = ValueString (Name plan), pull_Stream = Some False\<rparr>
      PullResponseFn (daemon w) = (err, d')"
    by (cases "Pull c \<lparr>pull_Name = ValueString (Name plan), pull_Stream = Some False\<rparr>
      PullResponseFn (daemon w)")
  show ?thesis
  proof (cases err)
    case None
    then show ?thesis
      using assms(1,2) ne p
      by (simp add: resource_Create_def client_Pull_def Let_def State_Set_def)
  next
    case (Some e)
    then show ?thesis
      using assms(1,2) ne p
      by (simp add: resource_Create_def client_Pull_def Let_def HasError_AddError)
         (simp add: AddError_def set_Append)
  qed
qed

theorem create_pull_then_state_witness:
  "resource_Create \<lparr>client = Some registry_client\<rparr>
       \<lparr>create_Plan = (model_named ''llama2'', [])\<rparr> (response_with StateNull)
       (registry_world True [])
     = Inr (\<lparr>Diagnostics = [], State = StateObject (model_named ''llama2'')\<rparr>,
            \<lparr>daemon = \<lparr>up = True, names = [''llama2'']\<rparr>,
             calls = [PullCall \<lparr>pull_Name = ''llama2'', pull_Stream = Some False\<rparr>]\<rparr>)
   \<and> resource_Create \<lparr>client = Some registry_client\<rparr>
       \<lparr>create_Plan = (model_named ''llama2'', [])\<rparr> (response_with StateNull)
       (registry_world False [])
     = Inr (\<lparr>Diagnostics = [ErrorDiagnostic ''Error pulling model''
                ''Could not pull model, unexpected error: connection refused''],
             State = StateNull\<rparr>,
            \<lparr>daemon = \<lparr>up = False, names = []\<rparr>,
             calls = [PullCall \<lparr>pull_Name = ''llama2'', pull_Stream = Some False\<rparr>]\<rparr>)"
proof -
  note a = create_pull_then_state [where r = "\<lparr>client = Some registry_client\<rparr>"
      and c = registry_client and req = "\<lparr>create_Plan = (model_named ''llama2'', [])\<rparr>"
      and plan = "model_named ''llama2''" and diags = "[]"
      and resp = "response_with StateNull" and w = "registry_world True []"]
  note b = create_pull_then_state [where r = "\<lparr>client = Some registry_client\<rparr>"
      and c = registry_client and req = "\<lparr>create_Plan = (model_named ''llama2'', [])\<rparr>"
      and plan = "model_named ''llama2''" and diags = "[]"
      and resp = "response_with StateNull" and w = "registry_world False []"]
  show ?thesis
    using a b
    by (simp add: resource_Create_def client_Pull_def registry_client_def registry_world_def
        response_with_def model_named_def State_Set_def AddError_def PullResponseFn_def)
qed

text \<open>
  C5. When the state decodes without error and the daemon answers the show call for
  the state's name with a status error of code 404, \<^verbatim>\<open>Read\<close> makes the state null
  and adds no diagnostic.
\<close>

theorem read_not_found_removes:
  assumes "client r = Some c" and "read_State req = (state, diags)"
    and "\<not> HasError (Diagnostics resp)" and "\<not> HasError diags"
    and "fst (Show c \<lparr>show_Model = ValueString (Name state)\<rparr> (daemon w)) = Inl (StatusError 404 msg)"
  shows "\<exists>resp' w'. resource_Read r req resp w = Inr (resp', w')
     \<and> State resp' = StateNull
     \<and> \<not> HasError (Diagnostics resp')
     \<and> Diagnostics resp' = Append (Diagnostics resp) diags
     \<and> calls w' = calls w @ [ShowCall \<lparr>show_Model = ValueString (Name state)\<rparr>]"
proof -
  have ne: "\<not> HasError (Append (Diagnostics resp) diags)"
    using assms(3,4) by (simp add: HasError_Append)
  obtain d' where s: "Show c \<lparr>show_Model = ValueString (Name state)\<rparr> (daemon w)
      = (Inl (StatusError 404 msg), d')"
    using assms(5) by (cases "Show c \<lparr>show_Model = ValueString (Name state)\<rparr> (daemon w)") simp
  show ?thesis
    using assms(1,2) ne s
    by (simp add: resource_Read_def client_Show_def Let_def RemoveResource_def)
qed

theorem read_not_found_removes_witness:
  "fst (Show registry_client \<lparr>show_Model = ''ghost-model''\<rparr> \<lparr>up = True, names = [''llama2'']\<rparr>)
     = Inl (StatusError 404 ''model not found'')
   \<and> resource_Read \<lparr>client = Some registry_client\<rparr>
       \<lparr>read_State = (model_named ''ghost-model'', [])\<rparr>
       (response_with (StateObject (model_named ''ghost-model'')))
       (registry_world True [''llama2''])
     = Inr (\<lparr>Diagnostics = [], State = StateNull\<rparr>,
            \<lparr>daemon = \<lparr>up = True, names = [''llama2'']\<rparr>,
             calls = [ShowCall \<lparr>show_Model = ''ghost-model''\<rparr>]\<rparr>)"
proof -
  note a = read_not_found_removes [where r = "\<lparr>client = Some registry_client\<rparr>"
      and c = registry_client and req = "\<lparr>read_State = (model_named ''ghost-model'', [])\<rparr>"
      and state = "model_named ''ghost-model''" and diags = "[]"
      and resp = "response_with (StateObject (model_named ''ghost-model''))"
      and w = "registry_world True [''llama2'']" and msg = "''model not found''"]
  show ?thesis
    using a
    by (simp add: resource_Read_def client_Show_def registry_client_def registry_world_def
        response_with_def model_named_def RemoveResource_def)
qed

text \<open>
  C6. When the state decodes without error: if the show call fails with an error that
  is not a status error of code 404, \<^verbatim>\<open>Read\<close> adds the error diagnostic and the
  state of the response is the one it came with; if the show call succeeds, the state
  written is the prior state as decoded, whatever the daemon answered, and no
  diagnostic is added.
\<close>

theorem read_keeps_state:
  assumes "client r = Some c" and "read_State req = (state, diags)"
    and "\<not> HasError (Diagnostics resp)" and "\<not> HasError diags"
  shows "\<exists>resp' w'. resource_Read r req resp w = Inr (resp', w')
     \<and> (case fst (Show c \<lparr>show_Model = ValueString (Name state)\<rparr> (daemon w)) of
          Inl err \<Rightarrow>
            (\<forall>msg. err \<noteq> StatusError 404 msg) \<longrightarrow>
              State resp' = State resp
              \<and> HasError (Diagnostics resp')
              \<and> ErrorDiagnostic ''Error Reading Ollama Model''
                    (''Could not read ollama model '' @ ValueString (Name state) @ '': '' @ Error err)
                  \<in> set (Diagnostics resp')
        | Inr ollamaModel \<Rightarrow>
            State resp' = StateObject state
            \<and> Diagnostics resp' = Append (Diagnostics resp) diags)"
proof -
  have ne: "\<not> HasError (Append (Diagnostics resp) diags)"
    using assms(3,4) by (simp add: HasError_Append)
  obtain res d' where s: "Show c \<lparr>show_Model = ValueString (Name state)\<rparr> (daemon w) = (res, d')"
    by (cases "Show c \<lparr>show_Model = ValueString (Name state)\<rparr> (daemon w)")
  show ?thesis
  proof (cases res)
    case (Inr ollamaModel)
    then show ?thesis
      using assms(1,2) ne s
      by (simp add: resource_Read_def client_Show_def Let_def State_Set_def)
  next
    case (Inl err)
    show ?thesis
    proof (cases err)
      case (OtherError m)
      then show ?thesis
        using assms(1,2) ne s Inl
        by (simp add: resource_Read_def client_Show_def Let_def HasError_AddError)
           (simp add: AddError_def set_Append)
    next
      case (StatusError code m)
      then show ?thesis
        using assms(1,2) ne s Inl
        by (simp add: resource_Read_def client_Show_def Let_def HasError_AddError)
           (simp add: AddError_def set_Append)
    qed
  qed
qed

theorem read_keeps_state_witness:
  "resource_Read \<lparr>client = Some registry_client\<rparr>
       \<lparr>read_State = (model_named ''llama2'', [])\<rparr>
       (response_with (StateObject (model_named ''llama2'')))
       (registry_world True [''llama2''])
     = Inr (\<lparr>Diagnostics = [], State = StateObject (model_named ''llama2'')\<rparr>,
            \<lparr>daemon = \<lparr>up = True, names = [''llama2'']\<rparr>,
             calls = [ShowCall \<lparr>show_Model = ''llama2''\<rparr>]\<rparr>)
   \<and> resource_Read \<lparr>client = Some registry_client\<rparr>
       \<lparr>read_State = (model_named ''llama2'', [])\<rparr>
       (response_with (StateObject (model_named ''llama2'')))
       (registry_world False [''llama2''])
     = Inr (\<lparr>Diagnostics = [ErrorDiagnostic ''Error Reading Ollama Model''
                ''Could not read ollama model llama2: connection refused''],
             State = StateObject (model_named ''llama2'')\<rparr>,
            \<lparr>daemon = \<lparr>up = False, names = [''llama2'']\<rparr>,
             calls = [ShowCall \<lparr>show_Model = ''llama2''\<rparr>]\<rparr>)"
proof -
  note a = read_keeps_state [where r = "\<lparr>client = Some registry_client\<rparr>"
      and c = registry_client and req = "\<lparr>read_State = (model_named ''llama2'', [])\<rparr>"
      and state = "model_named ''llama2''" and diags = "[]"
      and resp = "response_with (StateObject (model_named ''llama2''))"
      and w = "registry_world True [''llama2'']"]
  note b = read_keeps_state [where r = "\<lparr>client = Some registry_client\<rparr>"
      and c = registry_client and req = "\<lparr>read_State = (model_named ''llama2'', [])\<rparr>"
      and state = "model_named ''llama2''" and diags = "[]"
      and resp = "response_with (StateObject (model_named ''llama2''))"
      and w = "registry_world False [''llama2'']"]
  show ?thesis
    using a b
    by (simp add: resource_Read_def client_Show_def registry_client_def registry_world_def
        response_with_def model_named_def State_Set_def AddError_def)
qed

text \<open>
  C3. When state and plan decode without error, \<^verbatim>\<open>Update\<close> first calls delete for
  the old name. If the delete fails, that is the only call made, the response holds the
  error diagnostic and its state is the one it came with. Otherwise the pull of the new
  name is the second call, made on the daemon as the delete left it; if the pull fails,
  the response holds the error diagnostic, its state is the one it came with and the
  daemon stays as the two calls left it; if it succeeds, the state is the plan.
\<close>

theorem update_delete_then_pull:
  assumes "client r = Some c"
    and "update_State req = (state, diags)" and "update_Plan req = (plan, diags2)"
    and "\<not> HasError (Diagnostics resp)" and "\<not> HasError diags" and "\<not> HasError diags2"
  shows "\<exists>resp' w'. resource_Update r req resp w = Inr (resp', w')
     \<and> (case Delete c \<lparr>delete_Model = ValueString (Name state)\<rparr> (daemon w) of
          (Some err, d1) \<Rightarrow>
            calls w' = calls w @ [DeleteCall \<lparr>delete_Model = ValueString (Name state)\<rparr>]
            \<and> daemon w' = d1
            \<and> ErrorDiagnostic ''Error deleting Ollama Model''
                  (''Could not delete ollama model '' @ ValueString (Name state) @ '': '' @ Error err)
                \<in> set (Diagnostics resp')
            \<and> HasError (Diagnostics resp') \<and> State resp' = State resp
        | (None, d1) \<Rightarrow>
            calls w' = calls w @
              [DeleteCall \<lparr>delete_Model = ValueString (Name state)\<rparr>,
               PullCall \<lparr>pull_Name = ValueString (Name plan), pull_Stream = Some False\<rparr>]
            \<and> (case Pull c \<lparr>pull_Name = ValueString (Name plan), pull_Stream = Some False\<rparr>
                      PullResponseFn d1 of
                 (Some err, d2) \<Rightarrow>
                   daemon w' = d2
                   \<and> ErrorDiagnostic ''Error pulling model''
                         (''Could not pull model, unexpected error: '' @ Error err)
                       \<in> set (Diagnostics resp')
                   \<and> HasError (Diagnostics resp') \<and> State resp' = State resp
               | (None, d2) \<Rightarrow>
                   daemon w' = d2 \<and> State resp' = StateObject plan
                   \<and> \<not> HasError (Diagnostics resp')))"
proof -
  let ?del = "\<lparr>delete_Model = ValueString (Name state)\<rparr>"
  let ?pull = "\<lparr>pull_Name = ValueString (Name plan), pull_Stream = Some False\<rparr>"
  have ne1: "\<not> HasError (Append (Diagnostics resp) diags)"
    using assms(4,5) by (simp add: HasError_Append)
  have ne2: "\<not> HasError (Append (Append (Diagnostics resp) diags) diags2)"
    using ne1 assms(6) by (simp add: HasError_Append)
  obtain e1 d1 where del: "Delete c ?del (daemon w) = (e1, d1)"
    by (cases "Delete c ?del (daemon w)")
  show ?thesis
  proof (cases e1)
    case (Some err)
    then show ?thesis
      using assms(1,2,3) ne1 ne2 del
      by (simp add: resource_Update_def client_Delete_def Let_def HasError_AddError)
         (simp add: AddError_def set_Append)
  next
    case None
    obtain e2 d2 where pull: "Pull c ?pull PullResponseFn d1 = (e2, d2)"
      by (cases "Pull c ?pull PullResponseFn d1")
    show ?thesis
    proof (cases e2)
      case (Some err)
      then show ?thesis
        using assms(1,2,3) ne1 ne2 del None pull
        by (simp add: resource_Update_def client_Delete_def client_Pull_def Let_def
            HasError_AddError)
           (simp add: AddError_def set_Append)
    next
      case en: None
      then show ?thesis
        using assms(1,2,3) ne1 ne2 del None pull
        by (simp add: resource_Update_def client_Delete_def client_Pull_def Let_def
            State_Set_def)
    qed
  qed
qed

theorem update_delete_then_pull_witness:
  "resource_Update \<lparr>client = Some registry_client\<rparr>
       \<lparr>update_State = (model_named ''old-model'', []),
        update_Plan = (model_named ''new-model'', [])\<rparr>
       (response_with (StateObject (model_named ''old-model'')))
       (registry_world True [''old-model''])
     = Inr (\<lparr>Diagnostics = [], State = StateObject (model_named ''new-model'')\<rparr>,
            \<lparr>daemon = \<lparr>up = True, names = [''new-model'']\<rparr>,
             calls = [DeleteCall \<lparr>delete_Model = ''old-model''\<rparr>,
                      PullCall \<lparr>pull_Name = ''new-model'', pull_Stream = Some False\<rparr>]\<rparr>)
   \<and> resource_Update \<lparr>client = Some registry_client\<rparr>
       \<lparr>update_State = (model_named ''old-model'', []),
        update_Plan = (model_named ''new-model'', [])\<rparr>
       (response_with (StateObject (model_named ''old-model'')))
       (registry_world True [])
     = Inr (\<lparr>Diagnostics = [ErrorDiagnostic ''Error deleting Ollama Model''
                ''Could not delete ollama model old-model: model not found''],
             State = StateObject (model_named ''old-model'')\<rparr>,
            \<lparr>daemon = \<lparr>up = True, names = []\<rparr>,
             calls = [DeleteCall \<lparr>delete_Model = ''old-model''\<rparr>]\<rparr>)
   \<and> resource_Update \<lparr>client = Some registry_client\<rparr>
       \<lparr>update_State = (model_named ''old-model'', []),
        update_Plan = (model_named [], [])\<rparr>
       (response_with (StateObject (model_named ''old-model'')))
       (registry_world True [''old-model''])
     = Inr (\<lparr>Diagnostics = [ErrorDiagnostic ''Error pulling model''
                ''Could not pull model, unexpected error: invalid model name''],
             State = StateObject (model_named ''old-model'')\<rparr>,
            \<lparr>daemon = \<lparr>up = True, names = []\<rparr>,
             calls = [DeleteCall \<lparr>delete_Model = ''old-model''\<rparr>,
                      PullCall \<lparr>pull_Name = [], pull_Stream = Some False\<rparr>]\<rparr>)"
proof -
  note a = update_delete_then_pull [where r = "\<lparr>client = Some registry_client\<rparr>"
      and c = registry_client
      and req = "\<lparr>update_State = (model_named ''old-model'', []),
                  update_Plan = (model_named ''new-model'', [])\<rparr>"
      and state = "model_named ''old-model''" and diags = "[]"
      and plan = "model_named ''new-model''" and ?diags2.0 = "[]"
      and resp = "response_with (StateObject (model_named ''old-model''))"
      and w = "registry_world True [''old-model'']"]
  note b = update_delete_then_pull [where r = "\<lparr>client = Some registry_client\<rparr>"
      and c = registry_client
      and req = "\<lparr>update_State = (model_named ''old-model'', []),
                  update_Plan = (model_named ''new-model'', [])\<rparr>"
      and state = "model_named ''old-model''" and diags = "[]"
      and plan = "model_named ''new-model''" and ?diags2.0 = "[]"
      and resp = "response_with (StateObject (model_named ''old-model''))"
      and w = "registry_world True []"]
  note c = update_delete_then_pull [where r = "\<lparr>client = Some registry_client\<rparr>"
      and c = registry_client
      and req = "\<lparr>update_State = (model_named ''old-model'', []),
                  update_Plan = (model_named [], [])\<rparr>"
      and state = "model_named ''old-model''" and diags = "[]"
      and plan = "model_named []" and ?diags2.0 = "[]"
      and resp = "response_with (StateObject (model_named ''old-model''))"
      and w = "registry_world True [''old-model'']"]
  show ?thesis
    using a b c
    by (simp add: resource_Update_def client_Delete_def client_Pull_def registry_client_def
        registry_world_def response_with_def model_named_def State_Set_def AddError_def
        PullResponseFn_def)
qed

section \<open>The model list data source\<close>

lemma ListValueFrom_no_diags: "snd (ListValueFrom xs) = []"
  by (cases xs) simp_all

lemma Elements_ListValueFrom:
  "Elements (fst (ListValueFrom xs)) = map StringValue (case xs of None \<Rightarrow> [] | Some ys \<Rightarrow> ys)"
  by (cases xs) simp_all

lemma foldl_go_append:
  "foldl go_append s xs
     = (if xs = [] then s else Some ((case s of None \<Rightarrow> [] | Some ys \<Rightarrow> ys) @ xs))"
  by (induction xs arbitrary: s) (auto simp: go_append_def split: option.splits)

lemma Read_range_fold:
  "Read_range ts ms data ds
     = (data\<lparr>Models := foldl go_append (Models data) (map (projected_entry ts) ms)\<rparr>, ds)"
proof (induction ms arbitrary: data ds)
  case Nil
  then show ?case by simp
next
  case (Cons m ms)
  obtain fam fd where lv: "ListValueFrom (api_Families (api_Details m)) = (fam, fd)"
    by (cases "ListValueFrom (api_Families (api_Details m))")
  have fd: "fd = []"
    using ListValueFrom_no_diags [of "api_Families (api_Details m)"] lv by simp
  show ?case
    using lv fd by (simp add: Cons.IH projected_entry_def)
qed

lemma Elements_FromSlice_fold:
  "s = None \<or> s = Some [] \<Longrightarrow> Elements (FromSlice (foldl go_append s xs)) = xs"
  by (auto simp: foldl_go_append)

lemma FromSlice_fold_ListValue:
  "s = None \<or> s = Some [] \<Longrightarrow> xs \<noteq> [] \<Longrightarrow> FromSlice (foldl go_append s xs) = ListValue xs"
  by (auto simp: foldl_go_append)

text \<open>
  C7. When the configuration decodes without error and holds no models (the attribute
  is computed only), and the daemon answers the list call, \<^verbatim>\<open>Read\<close> writes a state
  whose models are as many as the daemon's, the i-th built from the daemon's i-th:
  name, modification time as text, size, digest and the five fields of the details,
  the families with the daemon's elements in the daemon's order. When the daemon has a
  model at all, the attribute written is a known list.
\<close>

theorem list_projection_in_order:
  assumes "ds_client d = Some c" and "read_Config req = (data, diags)"
    and "\<not> HasError (Diagnostics resp)" and "\<not> HasError diags"
    and "Models data = None \<or> Models data = Some []"
    and "fst (List c (daemon w)) = Inr rsp"
  shows "\<exists>resp' w' out. datasource_Read ts d req resp w = Inr (resp', w')
     \<and> State resp' = StateObject out
     \<and> length (Elements (models out)) = length (api_Models rsp)
     \<and> (api_Models rsp \<noteq> [] \<longrightarrow> models out = ListValue (Elements (models out)))
     \<and> (\<forall>i < length (api_Models rsp).
          Name (Elements (models out) ! i) = StringValue (api_Name (api_Models rsp ! i))
          \<and> ModifiedAt (Elements (models out) ! i)
              = StringValue (ts (api_ModifiedAt (api_Models rsp ! i)))
          \<and> Size (Elements (models out) ! i) = Int64Value (api_Size (api_Models rsp ! i))
          \<and> Digest (Elements (models out) ! i) = StringValue (api_Digest (api_Models rsp ! i))
          \<and> Format (Details (Elements (models out) ! i))
              = StringValue (api_Format (api_Details (api_Models rsp ! i)))
          \<and> Family (Details (Elements (models out) ! i))
              = StringValue (api_Family (api_Details (api_Models rsp ! i)))
          \<and> Elements (Families (Details (Elements (models out) ! i)))
              = map StringValue (case api_Families (api_Details (api_Models rsp ! i)) of
                                   None \<Rightarrow> [] | Some xs \<Rightarrow> xs)
          \<and> ParameterSize (Details (Elements (models out) ! i))
              = StringValue (api_ParameterSize (api_Details (api_Models rsp ! i)))
          \<and> QuantizationLevel (Details (Elements (models out) ! i))
              = StringValue (api_QuantizationLevel (api_Details (api_Models rsp ! i))))"
proof -
  have ne: "\<not> HasError (Append (Diagnostics resp) diags)"
    using assms(3,4) by (simp add: HasError_Append)
  obtain d' where l: "List c (daemon w) = (Inr rsp, d')"
    using assms(6) by (cases "List c (daemon w)") simp
  let ?es = "map (projected_entry ts) (api_Models rsp)"
  let ?out = "\<lparr>models = FromSlice (foldl go_append (Models data) ?es)\<rparr>"
  have run: "datasource_Read ts d req resp w
      = Inr (resp\<lparr>Diagnostics := Append (Diagnostics resp) diags, State := StateObject ?out\<rparr>,
             w\<lparr>daemon := d', calls := calls w @ [ListCall]\<rparr>)"
    using assms(1,2) ne l
    by (simp add: datasource_Read_def client_List_def Let_def Read_range_fold
        datasource_State_Set_def)
  have el: "Elements (models ?out) = ?es"
    using Elements_FromSlice_fold [OF assms(5)] by simp
  have known: "api_Models rsp \<noteq> [] \<longrightarrow> models ?out = ListValue (Elements (models ?out))"
    using FromSlice_fold_ListValue [OF assms(5), of ?es] el by simp
  have entries: "\<forall>i < length (api_Models rsp).
          Name (Elements (models ?out) ! i) = StringValue (api_Name (api_Models rsp ! i))
          \<and> ModifiedAt (Elements (models ?out) ! i)
              = StringValue (ts (api_ModifiedAt (api_Models rsp ! i)))
          \<and> Size (Elements (models ?out) ! i) = Int64Value (api_Size (api_Models rsp ! i))
          \<and> Digest (Elements (models ?out) ! i) = StringValue (api_Digest (api_Models rsp ! i))
          \<and> Format (Details (Elements (models ?out) ! i))
              = StringValue (api_Format (api_Details (api_Models rsp ! i)))
          \<and> Family (Details (Elements (models ?out) ! i))
              = StringValue (api_Family (api_Details (api_Models rsp ! i)))
          \<and> Elements (Families (Details (Elements (models ?out) ! i)))
              = map StringValue (case api_Families (api_Details (api_Models rsp ! i)) of
                                   None \<Rightarrow> [] | Some xs \<Rightarrow> xs)
          \<and> ParameterSize (Details (Elements (models ?out) ! i))
              = StringValue (api_ParameterSize (api_Details (api_Models rsp ! i)))
          \<and> QuantizationLevel (Details (Elements (models ?out) ! i))
              = StringValue (api_QuantizationLevel (api_Details (api_Models rsp ! i)))"
    unfolding el by (simp add: projected_entry_def Elements_ListValueFrom)
  have len: "length (Elements (models ?out)) = length (api_Models rsp)"
    unfolding el by simp
  have st: "State (resp\<lparr>Diagnostics := Append (Diagnostics resp) diags, State := StateObject ?out\<rparr>)
      = StateObject ?out"
    by simp
  show ?thesis
    using run st len known entries by blast
qed

theorem list_projection_in_order_witness:
  "datasource_Read time_String_nat \<lparr>ds_client = Some registry_client\<rparr>
       \<lparr>read_Config = (\<lparr>Models = None\<rparr>, [])\<rparr> (response_with StateNull)
       (registry_world True [''m1'', ''m2''])
     = Inr (\<lparr>Diagnostics = [],
             State = StateObject \<lparr>models = ListValue
               [\<lparr>Name = StringValue ''m1'',
                 ModifiedAt = StringValue ''0001-01-01 00:00:00 +0000 UTC'',
                 Size = Int64Value 42, Digest = StringValue ''sha256'',
                 Details = \<lparr>Format = StringValue ''gguf'', Family = StringValue ''llama'',
                            Families = ListValue [StringValue ''a'', StringValue ''b''],
                            ParameterSize = StringValue ''7B'',
                            QuantizationLevel = StringValue ''Q4_0''\<rparr>\<rparr>,
                \<lparr>Name = StringValue ''m2'',
                 ModifiedAt = StringValue ''0001-01-01 00:00:00 +0000 UTC'',
                 Size = Int64Value 42, Digest = StringValue ''sha256'',
                 Details = \<lparr>Format = StringValue ''gguf'', Family = StringValue ''llama'',
                            Families = ListValue [StringValue ''a'', StringValue ''b''],
                            ParameterSize = StringValue ''7B'',
                            QuantizationLevel = StringValue ''Q4_0''\<rparr>\<rparr>]\<rparr>\<rparr>,
            \<lparr>daemon = \<lparr>up = True, names = [''m1'', ''m2'']\<rparr>, calls = [ListCall]\<rparr>)"
proof -
  note a = list_projection_in_order [where d = "\<lparr>ds_client = Some registry_client\<rparr>"
      and c = registry_client and req = "\<lparr>read_Config = (\<lparr>Models = None\<rparr>, [])\<rparr>"
      and data = "\<lparr>Models = None\<rparr>" and diags = "[]"
      and resp = "response_with StateNull" and w = "registry_world True [''m1'', ''m2'']"
      and rsp = "\<lparr>api_Models = map registry_entry [''m1'', ''m2'']\<rparr>"
      and ts = time_String_nat]
  show ?thesis
    using a
    by (simp add: datasource_Read_def client_List_def registry_client_def registry_world_def
        response_with_def registry_entry_def datasource_State_Set_def time_String_nat_def
        go_append_def)
qed

text \<open>
  C8, as stated, fails: with a daemon that lists no model the loop never appends, the
  slice is still nil, and the state written holds the null list for \<^verbatim>\<open>models\<close>,
  which is not the empty list.
\<close>

theorem list_empty_counterexample:
  "datasource_Read time_String_nat \<lparr>ds_client = Some registry_client\<rparr>
       \<lparr>read_Config = (\<lparr>Models = None\<rparr>, [])\<rparr> (response_with StateNull)
       (registry_world True [])
     = Inr (\<lparr>Diagnostics = [], State = StateObject \<lparr>models = ListNull\<rparr>\<rparr>,
            \<lparr>daemon = \<lparr>up = True, names = []\<rparr>, calls = [ListCall]\<rparr>)
   \<and> StateObject \<lparr>models = ListNull\<rparr> \<noteq> StateObject \<lparr>models = ListValue []\<rparr>"
  by (simp add: datasource_Read_def client_List_def registry_client_def registry_world_def
      response_with_def datasource_State_Set_def)

text \<open>
  C8, amended. When the configuration decodes without error and its models are null
  (the attribute is computed only, so the decoded slice is nil): if the daemon answers
  the list call with no models, \<^verbatim>\<open>Read\<close> adds no diagnostic and writes a state whose
  \<^verbatim>\<open>models\<close> is the null list; if the list call fails, the response holds the error
  diagnostic and its state is the one it came with.
\<close>

theorem list_empty_or_error:
  assumes "ds_client d = Some c" and "read_Config req = (data, diags)"
    and "\<not> HasError (Diagnostics resp)" and "\<not> HasError diags"
    and "Models data = None"
  shows "\<exists>resp' w'. datasource_Read ts d req resp w = Inr (resp', w')
     \<and> calls w' = calls w @ [ListCall]
     \<and> (case fst (List c (daemon w)) of
          Inl err \<Rightarrow>
            ErrorDiagnostic ''Client Error''
                (''Unable to read ollama models, got error: '' @ Error err)
              \<in> set (Diagnostics resp')
            \<and> HasError (Diagnostics resp') \<and> State resp' = State resp
        | Inr rsp \<Rightarrow>
            api_Models rsp = [] \<longrightarrow>
              \<not> HasError (Diagnostics resp')
              \<and> Diagnostics resp' = Append (Diagnostics resp) diags
              \<and> State resp' = StateObject \<lparr>models = ListNull\<rparr>)"
proof -
  have ne: "\<not> HasError (Append (Diagnostics resp) diags)"
    using assms(3,4) by (simp add: HasError_Append)
  obtain res d' where l: "List c (daemon w) = (res, d')"
    by (cases "List c (daemon w)")
  show ?thesis
  proof (cases res)
    case (Inl err)
    then show ?thesis
      using assms(1,2) ne l
      by (simp add: datasource_Read_def client_List_def Let_def HasError_AddError)
         (simp add: AddError_def set_Append)
  next
    case (Inr rsp)
    then show ?thesis
      using assms(1,2,5) ne l
      by (simp add: datasource_Read_def client_List_def Let_def Read_range_fold
          datasource_State_Set_def)
  qed
qed

theorem list_empty_or_error_witness:
  "datasource_Read time_String_nat \<lparr>ds_client = Some registry_client\<rparr>
       \<lparr>read_Config = (\<lparr>Models = None\<rparr>, [])\<rparr> (response_with StateNull)
       (registry_world True [])
     = Inr (\<lparr>Diagnostics = [], State = StateObject \<lparr>models = ListNull\<rparr>\<rparr>,
            \<lparr>daemon = \<lparr>up = True, names = []\<rparr>, calls = [ListCall]\<rparr>)
   \<and> datasource_Read time_String_nat \<lparr>ds_client = Some registry_client\<rparr>
       \<lparr>read_Config = (\<lparr>Models = None\<rparr>, [])\<rparr> (response_with StateNull)
       (registry_world False [])
     = Inr (\<lparr>Diagnostics = [ErrorDiagnostic ''Client Error''
                ''Unable to read ollama models, got error: connection refused''],
             State = StateNull\<rparr>,
            \<lparr>daemon = \<lparr>up = False, names = []\<rparr>, calls = [ListCall]\<rparr>)"
proof -
  note a = list_empty_or_error [where d = "\<lparr>ds_client = Some registry_client\<rparr>"
      and c = registry_client and req = "\<lparr>read_Config = (\<lparr>Models = None\<rparr>, [])\<rparr>"
      and data = "\<lparr>Models = None\<rparr>" and diags = "[]"
      and resp = "response_with StateNull" and w = "registry_world True []"
      and ts = time_String_nat]
  note b = list_empty_or_error [where d = "\<lparr>ds_client = Some registry_client\<rparr>"
      and c = registry_client and req = "\<lparr>read_Config = (\<lparr>Models = None\<rparr>, [])\<rparr>"
      and data = "\<lparr>Models = None\<rparr>" and diags = "[]"
      and resp = "response_with StateNull" and w = "registry_world False []"
      and ts = time_String_nat]
  show ?thesis
    using a b
    by (simp add: datasource_Read_def client_List_def registry_client_def registry_world_def
        response_with_def datasource_State_Set_def AddError_def)
qed

end
